theory Spec2Isabelle
  imports Complex_Main "HOL-Library.Char_ord" "HOL-Library.List_Lexorder"
begin

section \<open>Values\<close>

text \<open>
  The program is \<^verbatim>\<open>src/bike_rental_system.py\<close>. Its values are modelled as follows.
  \<^item> A Python \<^verbatim>\<open>int\<close> (hours, row ids) is an \<open>int\<close>; \<^verbatim>\<open>//\<close> and \<^verbatim>\<open>%\<close> by the
    positive constant 24 are \<open>div\<close> and \<open>mod\<close>, which round the same way.
  \<^item> A Python \<^verbatim>\<open>float\<close> and a \<^verbatim>\<open>REAL\<close> column (rates, costs, durations) is an exact
    rational: \<open>0.8\<close> is \<open>8 / 10\<close>, \<open>0.9\<close> is \<open>9 / 10\<close>, \<open>1.5\<close> is \<open>3 / 2\<close>. The
    rounding of binary floating point is outside this model.
  \<^item> A \<^verbatim>\<open>datetime\<close> is the number of microseconds since a fixed instant, so that the
    \<^verbatim>\<open>total_seconds()\<close> of a difference is that difference divided by \<open>10\<^sup>6\<close>.
    \<^verbatim>\<open>datetime.now()\<close> is a parameter \<open>now\<close> of the operation that reads the clock.
  \<^item> A \<^verbatim>\<open>TEXT\<close> column is a \<open>string\<close>, ordered byte by byte as SQLite compares
    text; a nullable column is an \<open>option\<close>.
  \<^item> An \<^verbatim>\<open>INTEGER\<close> of the store has 64 bits with a sign. What the program reads from
    the store is in that range; an argument of an operation is a Python \<^verbatim>\<open>int\<close> and need
    not be, and \<^verbatim>\<open>sqlite3\<close> raises \<^verbatim>\<open>OverflowError\<close> when such a value is bound to a
    parameter of a statement.
\<close>

type_synonym timestamp = int

definition fits_int64 :: "int \<Rightarrow> bool" where
  "fits_int64 n = (- 9223372036854775808 \<le> n \<and> n \<le> 9223372036854775807)"

text \<open>
  The operations of the program report a failure by printing a message and returning
  \<^verbatim>\<open>False\<close>. The model returns the failure as a value, one constructor for each message:
  \<^item> \<open>LoginRequired\<close>: \<^verbatim>\<open>Please login first!\<close>
  \<^item> \<open>InvalidDurationError\<close>: \<^verbatim>\<open>Duration must be greater than 0 hours!\<close>
  \<^item> \<open>BikeUnavailableError\<close>: \<^verbatim>\<open>Bike not available or doesn't exist!\<close>
  \<^item> \<open>RentalNotFoundError\<close>: \<^verbatim>\<open>Active rental not found!\<close>
  \<^item> \<open>ProcessingError\<close>: the \<^verbatim>\<open>except Exception\<close> branch, which rolls the transaction
    back and prints \<^verbatim>\<open>Error processing rental\<close> or \<^verbatim>\<open>Error processing return\<close>.
  One failure is no return at all:
  \<^item> \<open>OverflowError\<close>: the exception of that name leaves the method, raised by a
    statement that is outside every \<^verbatim>\<open>try\<close> block.
\<close>

datatype error =
    LoginRequired
  | InvalidDurationError
  | BikeUnavailableError
  | RentalNotFoundError
  | ProcessingError
  | OverflowError

section \<open>Bikes and their rental cost\<close>

text \<open>
  The abstract class \<^verbatim>\<open>Bike\<close> has four concrete subclasses. An object is a constructor
  for its class applied to the five fields that \<^verbatim>\<open>Bike.__init__\<close> stores.
\<close>

datatype bike =
    MountainBike (bike_id: int) (bike_type: string) (model: string)
      (hourly_rate: rat) (daily_rate: rat)
  | RoadBike (bike_id: int) (bike_type: string) (model: string)
      (hourly_rate: rat) (daily_rate: rat)
  | HybridBike (bike_id: int) (bike_type: string) (model: string)
      (hourly_rate: rat) (daily_rate: rat)
  | ElectricBike (bike_id: int) (bike_type: string) (model: string)
      (hourly_rate: rat) (daily_rate: rat)

text \<open>
  \<^verbatim>\<open>calculate_rental_cost\<close>, one equation for each class. No method raises, so every
  equation returns \<open>Inr\<close>; the result type leaves room for the failure that a caller's
  \<^verbatim>\<open>try\<close> block would catch.
\<close>

fun calculate_rental_cost :: "bike \<Rightarrow> int \<Rightarrow> error + rat" where
  "calculate_rental_cost (MountainBike i t m hr dr) hours =
     (if hours \<le> 4 then Inr (of_int hours * hr)
      else
        let days = hours div 24;
            remaining_hours = hours mod 24
        in Inr (of_int days * dr + of_int remaining_hours * hr * (8 / 10)))"
| "calculate_rental_cost (RoadBike i t m hr dr) hours =
     (if hours \<le> 3 then Inr (of_int hours * hr)
      else
        let days = hours div 24;
            remaining_hours = hours mod 24
        in Inr (of_int days * dr + of_int remaining_hours * hr))"
| "calculate_rental_cost (HybridBike i t m hr dr) hours =
     (if hours \<le> 6 then Inr (of_int hours * hr)
      else
        let days = hours div 24;
            remaining_hours = hours mod 24;
            daily_cost = of_int days * dr;
            hourly_cost = of_int remaining_hours * hr * (9 / 10)
        in Inr (daily_cost + hourly_cost))"
| "calculate_rental_cost (ElectricBike i t m hr dr) hours =
     (let base_cost =
            (if hours \<le> 8 then of_int hours * hr
             else of_int (hours div 24) * dr + of_int (hours mod 24) * hr);
          battery_fee = of_int hours * 2
      in Inr (base_cost + battery_fee))"

text \<open>
  \<^verbatim>\<open>BikeFactory.create_bike\<close>: the dictionary \<^verbatim>\<open>bike_classes\<close> from labels to classes,
  looked up with \<^verbatim>\<open>HybridBike\<close> as the default of \<^verbatim>\<open>dict.get\<close>. The argument is the
  first five fields of a row.
\<close>

definition bike_classes ::
  "(string \<times> (int \<Rightarrow> string \<Rightarrow> string \<Rightarrow> rat \<Rightarrow> rat \<Rightarrow> bike)) list" where
  "bike_classes =
     [(''Mountain'', MountainBike),
      (''Road'', RoadBike),
      (''Hybrid'', HybridBike),
      (''Electric'', ElectricBike)]"

definition create_bike :: "int \<times> string \<times> string \<times> rat \<times> rat \<Rightarrow> bike" where
  "create_bike bike_data =
     (case bike_data of (bid, btype, bmodel, hrate, drate) \<Rightarrow>
        let bike_class =
              (case map_of bike_classes btype of
                 Some c \<Rightarrow> c
               | None \<Rightarrow> HybridBike)
        in bike_class bid btype bmodel hrate drate)"

text \<open>
  The formula of the specification, written from its words: below or at a threshold the
  cost is hours times the hourly rate; above it, whole days at the daily rate plus the
  remaining hours at the hourly rate times a factor.
\<close>

definition spec_piecewise :: "int \<Rightarrow> rat \<Rightarrow> rat \<Rightarrow> rat \<Rightarrow> int \<Rightarrow> rat" where
  "spec_piecewise threshold factor hr dr hours =
     (if hours \<le> threshold then of_int hours * hr
      else of_int (hours div 24) * dr + of_int (hours mod 24) * hr * factor)"

text \<open>
  The cost that the specification gives a stored category label, written from its
  words: the four known labels have their own strategy, the Electric one with the
  battery surcharge, and every other label has the Hybrid strategy.
\<close>

definition spec_cost :: "string \<Rightarrow> rat \<Rightarrow> rat \<Rightarrow> int \<Rightarrow> rat" where
  "spec_cost label hr dr hours =
     (if label = ''Mountain'' then spec_piecewise 4 (8 / 10) hr dr hours
      else if label = ''Road'' then spec_piecewise 3 1 hr dr hours
      else if label = ''Electric'' then spec_piecewise 8 1 hr dr hours + of_int hours * 2
      else spec_piecewise 6 (9 / 10) hr dr hours)"

section \<open>The store\<close>

text \<open>
  The database has three tables. A table is the list of its rows in the order of
  insertion; a row is a record of its columns. The columns \<^verbatim>\<open>id\<close>, \<^verbatim>\<open>customer_id\<close> and
  \<^verbatim>\<open>bike_id\<close> carry the prefix of their table, since a record field is a global name.
\<close>

record bike_row =
  b_id :: int
  b_bike_type :: string
  b_model :: string
  b_hourly_rate :: rat
  b_daily_rate :: rat
  is_available :: bool
  last_maintenance :: "string option"

record customer_row =
  c_id :: int
  c_name :: string
  c_email :: string
  c_phone :: string
  created_at :: timestamp

record rental_row =
  r_id :: int
  r_customer_id :: int
  r_bike_id :: int
  rental_start :: timestamp
  rental_end :: "timestamp option"
  planned_duration_hours :: int
  actual_duration_hours :: "rat option"
  base_cost :: rat
  additional_charges :: rat
  total_cost :: rat
  status :: string

text \<open>The class \<^verbatim>\<open>Customer\<close>.\<close>

record customer =
  customer_id :: int
  name :: string
  email :: string
  phone :: string

text \<open>
  \<^verbatim>\<open>BikeRentalSystem\<close>: the database behind \<^verbatim>\<open>db_manager\<close> and the field
  \<^verbatim>\<open>current_customer\<close>, which is \<^verbatim>\<open>None\<close> until a customer logs in.
\<close>

record system =
  bikes :: "bike_row list"
  customers :: "customer_row list"
  rentals :: "rental_row list"
  current_customer :: "customer option"

subsection \<open>The SQL statements\<close>

text \<open>
  \<^verbatim>\<open>SELECT * FROM bikes WHERE id = ? AND is_available = 1\<close> followed by
  \<^verbatim>\<open>fetchone()\<close>: the first such row, if any.
\<close>

definition select_available_bike :: "bike_row list \<Rightarrow> int \<Rightarrow> bike_row option" where
  "select_available_bike bs bid = find (\<lambda>b. b_id b = bid \<and> is_available b) bs"

text \<open>\<^verbatim>\<open>bike_data[:5]\<close>, the slice that \<^verbatim>\<open>create_bike\<close> unpacks.\<close>

definition first_five :: "bike_row \<Rightarrow> int \<times> string \<times> string \<times> rat \<times> rat" where
  "first_five b = (b_id b, b_bike_type b, b_model b, b_hourly_rate b, b_daily_rate b)"

text \<open>
  The id that \<^verbatim>\<open>INTEGER PRIMARY KEY AUTOINCREMENT\<close> gives a new row: one more than the
  largest id of the table, and 1 in an empty table. (The program never deletes a row,
  so the largest id ever used is the largest id present.)
\<close>

definition next_rowid :: "int list \<Rightarrow> int" where
  "next_rowid ids = fold max ids 0 + 1"

text \<open>
  The \<^verbatim>\<open>INSERT INTO rentals\<close> of \<^verbatim>\<open>rent_bike\<close>. It names six columns; the others take
  their defaults: \<^verbatim>\<open>rental_end\<close> and \<^verbatim>\<open>actual_duration_hours\<close> are null,
  \<^verbatim>\<open>additional_charges\<close> is 0 and \<^verbatim>\<open>status\<close> is \<^verbatim>\<open>'ACTIVE'\<close>.
\<close>

definition insert_rental ::
  "rental_row list \<Rightarrow> int \<Rightarrow> int \<Rightarrow> timestamp \<Rightarrow> int \<Rightarrow> rat \<Rightarrow> rat \<Rightarrow> rental_row list" where
  "insert_rental rs cid bid start planned base_c total_c =
     rs @
     [\<lparr>r_id = next_rowid (map r_id rs),
       r_customer_id = cid,
       r_bike_id = bid,
       rental_start = start,
       rental_end = None,
       planned_duration_hours = planned,
       actual_duration_hours = None,
       base_cost = base_c,
       additional_charges = 0,
       total_cost = total_c,
       status = ''ACTIVE''\<rparr>]"

text \<open>\<^verbatim>\<open>UPDATE bikes SET is_available = ? WHERE id = ?\<close>, for the flag 0 and the flag 1.\<close>

definition set_is_available :: "bike_row list \<Rightarrow> int \<Rightarrow> bool \<Rightarrow> bike_row list" where
  "set_is_available bs bid flag =
     map (\<lambda>b. if b_id b = bid then b\<lparr>is_available := flag\<rparr> else b) bs"

text \<open>
  The \<^verbatim>\<open>SELECT\<close> of \<^verbatim>\<open>return_bike\<close>: rentals joined with their bikes, restricted to the
  rental id, the customer and the status \<^verbatim>\<open>'ACTIVE'\<close>, followed by \<^verbatim>\<open>fetchone()\<close>.
\<close>

definition active_rental_rows ::
  "system \<Rightarrow> int \<Rightarrow> int \<Rightarrow> (rental_row \<times> bike_row) list" where
  "active_rental_rows self rid cid =
     [(r, b). r \<leftarrow> rentals self, b \<leftarrow> bikes self,
              r_bike_id r = b_id b,
              r_id r = rid \<and> r_customer_id r = cid \<and> status r = ''ACTIVE'']"

definition select_active_rental ::
  "system \<Rightarrow> int \<Rightarrow> int \<Rightarrow> (rental_row \<times> bike_row) option" where
  "select_active_rental self rid cid =
     (case active_rental_rows self rid cid of
        [] \<Rightarrow> None
      | row # _ \<Rightarrow> Some row)"

text \<open>The \<^verbatim>\<open>UPDATE rentals SET ... WHERE id = ?\<close> of \<^verbatim>\<open>return_bike\<close>.\<close>

definition update_rental ::
  "rental_row list \<Rightarrow> int \<Rightarrow> timestamp \<Rightarrow> rat \<Rightarrow> rat \<Rightarrow> rat \<Rightarrow> rental_row list" where
  "update_rental rs rid end_time actual charges final =
     map (\<lambda>r. if r_id r = rid
               then r\<lparr>rental_end := Some end_time,
                      actual_duration_hours := Some actual,
                      additional_charges := charges,
                      total_cost := final,
                      status := ''COMPLETED''\<rparr>
               else r) rs"

text \<open>
  The aggregates \<^verbatim>\<open>SUM\<close> and \<^verbatim>\<open>AVG\<close> of SQL are null over no rows. Python's
  \<^verbatim>\<open>x or 0\<close> replaces a null, and a zero, by 0.
\<close>

definition sql_sum :: "rat list \<Rightarrow> rat option" where
  "sql_sum xs = (if xs = [] then None else Some (sum_list xs))"

definition sql_avg :: "rat list \<Rightarrow> rat option" where
  "sql_avg xs = (if xs = [] then None else Some (sum_list xs / of_nat (length xs)))"

definition or_zero :: "rat option \<Rightarrow> rat" where
  "or_zero x = (case x of None \<Rightarrow> 0 | Some v \<Rightarrow> if v = 0 then 0 else v)"

text \<open>
  The query for the most popular bike type: the labels of the bikes joined to the
  rentals, grouped and counted, the largest count first, \<^verbatim>\<open>LIMIT 1\<close>. SQL leaves the
  order among equal counts open. SQLite answers with the greatest label among them, and
  so does the model: of two groups the one with the larger count wins, and of two with
  the same count the one with the greater label.
\<close>

definition rented_types :: "system \<Rightarrow> string list" where
  "rented_types self =
     [b_bike_type b. r \<leftarrow> rentals self, b \<leftarrow> bikes self, r_bike_id r = b_id b]"

fun largest_count :: "(string \<times> nat) list \<Rightarrow> (string \<times> nat) option" where
  "largest_count [] = None"
| "largest_count (g # gs) =
     (case largest_count gs of
        None \<Rightarrow> Some g
      | Some h \<Rightarrow>
          if snd g < snd h \<or> (snd g = snd h \<and> fst g < fst h) then Some h else Some g)"

definition select_popular_bike :: "system \<Rightarrow> (string \<times> nat) option" where
  "select_popular_bike self =
     (let types = rented_types self
      in largest_count (map (\<lambda>t. (t, count_list types t)) (remdups types)))"

section \<open>The operations\<close>

text \<open>
  Every method takes the system and returns its result with the system afterwards.
  \<^verbatim>\<open>conn.commit()\<close> is the return of the updated tables, \<^verbatim>\<open>conn.rollback()\<close> and a
  return before any write are the return of the tables as they were.

  \<^verbatim>\<open>rent_bike\<close> returns \<^verbatim>\<open>True\<close> after printing the rental id and the total cost; the
  model returns the two as \<open>Inr\<close>. Its \<^verbatim>\<open>SELECT\<close> binds \<^verbatim>\<open>bike_id\<close> before the
  \<^verbatim>\<open>try\<close> block, so that an id out of range raises out of the method. Its \<^verbatim>\<open>INSERT\<close>
  binds \<^verbatim>\<open>duration_hours\<close> inside the \<^verbatim>\<open>try\<close> block, so that a duration out of range
  ends in the \<^verbatim>\<open>except\<close> branch.
\<close>

definition rent_bike ::
  "system \<Rightarrow> timestamp \<Rightarrow> int \<Rightarrow> int \<Rightarrow> (error + int \<times> rat) \<times> system" where
  "rent_bike self now bid duration_hours =
     (case current_customer self of
        None \<Rightarrow> (Inl LoginRequired, self)
      | Some cust \<Rightarrow>
          if duration_hours \<le> 0 then (Inl InvalidDurationError, self)
          else if \<not> fits_int64 bid then (Inl OverflowError, self)
          else
            (case select_available_bike (bikes self) bid of
               None \<Rightarrow> (Inl BikeUnavailableError, self)
             | Some bike_data \<Rightarrow>
                 let bike = create_bike (first_five bike_data) in
                 (case calculate_rental_cost bike duration_hours of
                    Inl e \<Rightarrow> (Inl ProcessingError, self)
                  | Inr cost \<Rightarrow>
                      if \<not> fits_int64 duration_hours then (Inl ProcessingError, self)
                      else
                      let rental_start_time = now;
                          inserted =
                            insert_rental (rentals self) (customer_id cust) bid
                              rental_start_time duration_hours cost cost;
                          updated = set_is_available (bikes self) bid False;
                          lastrowid = next_rowid (map r_id (rentals self))
                      in (Inr (lastrowid, cost),
                          self\<lparr>bikes := updated, rentals := inserted\<rparr>))))"

text \<open>
  \<^verbatim>\<open>return_bike\<close> returns \<^verbatim>\<open>True\<close> after printing the actual duration, the overtime
  charges and the final cost; the model returns the three as \<open>Inr\<close>. Its \<^verbatim>\<open>SELECT\<close>
  binds \<^verbatim>\<open>rental_id\<close> inside the \<^verbatim>\<open>try\<close> block, so that an id out of range ends in
  the \<^verbatim>\<open>except\<close> branch.
\<close>

definition return_bike ::
  "system \<Rightarrow> timestamp \<Rightarrow> int \<Rightarrow> (error + rat \<times> rat \<times> rat) \<times> system" where
  "return_bike self now rid =
     (case current_customer self of
        None \<Rightarrow> (Inl LoginRequired, self)
      | Some cust \<Rightarrow>
          if \<not> fits_int64 rid then (Inl ProcessingError, self)
          else
          (case select_active_rental self rid (customer_id cust) of
             None \<Rightarrow> (Inl RentalNotFoundError, self)
           | Some (r, b) \<Rightarrow>
               let rental_end_time = now;
                   actual_duration =
                     of_int (rental_end_time - rental_start r) / 1000000 / 3600;
                   bike =
                     create_bike
                       (r_bike_id r, b_bike_type b, b_model b, b_hourly_rate b, b_daily_rate b);
                   additional_charges_new =
                     (if actual_duration > of_int (planned_duration_hours r)
                      then (actual_duration - of_int (planned_duration_hours r))
                             * hourly_rate bike * (3 / 2)
                      else 0);
                   final_cost = base_cost r + additional_charges_new;
                   updated_rentals =
                     update_rental (rentals self) rid rental_end_time actual_duration
                       additional_charges_new final_cost;
                   updated_bikes = set_is_available (bikes self) (r_bike_id r) True
               in (Inr (actual_duration, additional_charges_new, final_cost),
                   self\<lparr>bikes := updated_bikes, rentals := updated_rentals\<rparr>)))"

text \<open>\<^verbatim>\<open>generate_business_report\<close> prints five figures; the model returns them.\<close>

record report =
  total_revenue :: rat
  total_rentals :: nat
  active_rentals :: nat
  popular_bike :: "(string \<times> nat) option"
  avg_duration :: rat

definition generate_business_report :: "system \<Rightarrow> report \<times> system" where
  "generate_business_report self =
     (let revenue =
            or_zero (sql_sum [total_cost r. r \<leftarrow> rentals self, status r = ''COMPLETED'']);
          n_rentals = length (rentals self);
          n_active = length [r. r \<leftarrow> rentals self, status r = ''ACTIVE''];
          popular = select_popular_bike self;
          average =
            or_zero (sql_avg (concat (map (\<lambda>r. case actual_duration_hours r of
                                               None \<Rightarrow> [] | Some d \<Rightarrow> [d])
                                          (rentals self))))
      in (\<lparr>total_revenue = revenue,
            total_rentals = n_rentals,
            active_rentals = n_active,
            popular_bike = popular,
            avg_duration = average\<rparr>,
          self))"

section \<open>The seeded store and two sessions\<close>

text \<open>
  \<^verbatim>\<open>insert_sample_data\<close> fills an empty \<^verbatim>\<open>bikes\<close> table with six rows. The ids are
  1 to 6 and every bike is available, by the defaults of the table.
\<close>

definition trek :: bike_row where
  "trek =
     \<lparr>b_id = 1, b_bike_type = ''Mountain'', b_model = ''Trek X-Caliber'',
      b_hourly_rate = 15, b_daily_rate = 80, is_available = True,
      last_maintenance = Some ''2024-01-15''\<rparr>"

definition sample_bikes :: "bike_row list" where
  "sample_bikes =
     [trek,
      \<lparr>b_id = 2, b_bike_type = ''Road'', b_model = ''Giant Defy'',
       b_hourly_rate = 12, b_daily_rate = 65, is_available = True,
       last_maintenance = Some ''2024-01-20''\<rparr>,
      \<lparr>b_id = 3, b_bike_type = ''Hybrid'', b_model = ''Cannondale Quick'',
       b_hourly_rate = 10, b_daily_rate = 55, is_available = True,
       last_maintenance = Some ''2024-01-18''\<rparr>,
      \<lparr>b_id = 4, b_bike_type = ''Electric'', b_model = ''Rad Power RadCity'',
       b_hourly_rate = 25, b_daily_rate = 120, is_available = True,
       last_maintenance = Some ''2024-01-22''\<rparr>,
      \<lparr>b_id = 5, b_bike_type = ''Mountain'', b_model = ''Specialized Rockhopper'',
       b_hourly_rate = 14, b_daily_rate = 75, is_available = True,
       last_maintenance = Some ''2024-01-10''\<rparr>,
      \<lparr>b_id = 6, b_bike_type = ''Road'', b_model = ''Cannondale CAAD'',
       b_hourly_rate = 13, b_daily_rate = 70, is_available = True,
       last_maintenance = Some ''2024-01-25''\<rparr>]"

text \<open>
  Three systems over the seeded store, on which the theorems below are run: one with no
  customer logged in, one where the only registered customer has logged in, and one
  where that customer holds bike 1 since the instant 0, for two planned hours at the
  cost of 30.
\<close>

definition logged_out :: system where
  "logged_out =
     \<lparr>bikes = sample_bikes,
      customers =
        [\<lparr>c_id = 1, c_name = ''Ada'', c_email = ''ada@example.org'',
          c_phone = ''555-0100'', created_at = 0\<rparr>],
      rentals = [],
      current_customer = None\<rparr>"

definition ada :: customer where
  "ada = \<lparr>customer_id = 1, name = ''Ada'', email = ''ada@example.org'',
           phone = ''555-0100''\<rparr>"

definition logged_in :: system where
  "logged_in = logged_out\<lparr>current_customer := Some ada\<rparr>"

definition active_row :: rental_row where
  "active_row =
     \<lparr>r_id = 1, r_customer_id = 1, r_bike_id = 1, rental_start = 0, rental_end = None,
      planned_duration_hours = 2, actual_duration_hours = None, base_cost = 30,
      additional_charges = 0, total_cost = 30, status = ''ACTIVE''\<rparr>"

definition renting :: system where
  "renting =
     logged_in
       \<lparr>bikes := set_is_available sample_bikes 1 False,
        rentals := [active_row]\<rparr>"

text \<open>One hour in microseconds, the unit of \<open>timestamp\<close>.\<close>

definition hour :: int where
  "hour = 3600 * 1000000"

text \<open>
  The mean of the specification, written from its words: the sum divided by the count,
  and zero over no values.
\<close>

definition spec_mean :: "rat list \<Rightarrow> rat" where
  "spec_mean xs = (if xs = [] then 0 else sum_list xs / of_nat (length xs))"

section \<open>Auxiliary facts\<close>

subsection \<open>Bikes\<close>

lemma create_bike_fields:
  "bike_id (create_bike (i, t, m, hr, dr)) = i"
  "bike_type (create_bike (i, t, m, hr, dr)) = t"
  "model (create_bike (i, t, m, hr, dr)) = m"
  "hourly_rate (create_bike (i, t, m, hr, dr)) = hr"
  "daily_rate (create_bike (i, t, m, hr, dr)) = dr"
  by (simp_all add: create_bike_def bike_classes_def)

lemma cost_returns: "\<exists>c. calculate_rental_cost b h = Inr c"
  by (cases b) (simp_all add: Let_def)

lemma cost_of_created:
  "calculate_rental_cost (create_bike (i, t, m, hr, dr)) h = Inr (spec_cost t hr dr h)"
  by (simp add: create_bike_def bike_classes_def spec_cost_def spec_piecewise_def Let_def)

subsection \<open>Row ids\<close>

lemma fold_max_ge: "(a::int) \<le> fold max xs a"
  by (induction xs arbitrary: a) (auto intro: order_trans [OF max.cobounded2])

lemma fold_max_upper: "x \<in> set xs \<Longrightarrow> (x::int) \<le> fold max xs a"
proof (induction xs arbitrary: a)
  case Nil
  then show ?case by simp
next
  case (Cons y ys)
  show ?case
  proof (cases "x = y")
    case True
    have "y \<le> max y a" by simp
    also have "\<dots> \<le> fold max ys (max y a)" by (rule fold_max_ge)
    finally show ?thesis using True by simp
  next
    case False
    with Cons show ?thesis by simp
  qed
qed

lemma next_rowid_fresh: "next_rowid ids \<notin> set ids"
proof
  assume "next_rowid ids \<in> set ids"
  then have "next_rowid ids \<le> fold max ids 0" by (rule fold_max_upper)
  then show False by (simp add: next_rowid_def)
qed

lemma distinct_ids_unique:
  assumes "distinct (map r_id rs)" and "r \<in> set rs" and "r' \<in> set rs" and "r_id r' = r_id r"
  shows "r' = r"
  using assms by (meson distinct_map inj_onD)

subsection \<open>The queries\<close>

lemma select_available_bike_Some:
  "select_available_bike bs bid = Some b \<Longrightarrow> b \<in> set bs \<and> b_id b = bid \<and> is_available b"
  by (auto simp: select_available_bike_def find_Some_iff)

lemma select_available_bike_None:
  "(select_available_bike bs bid = None) = (\<forall>b\<in>set bs. b_id b = bid \<longrightarrow> \<not> is_available b)"
  by (auto simp: select_available_bike_def find_None_iff)

lemma set_active_rental_rows:
  "set (active_rental_rows self rid cid) =
     {(r, b). r \<in> set (rentals self) \<and> b \<in> set (bikes self) \<and> r_bike_id r = b_id b
         \<and> r_id r = rid \<and> r_customer_id r = cid \<and> status r = ''ACTIVE''}"
  unfolding active_rental_rows_def by (auto split: if_splits)

lemma select_active_rental_Some:
  assumes "select_active_rental self rid cid = Some (r, b)"
  shows "r \<in> set (rentals self) \<and> b \<in> set (bikes self) \<and> r_bike_id r = b_id b
       \<and> r_id r = rid \<and> r_customer_id r = cid \<and> status r = ''ACTIVE''"
proof -
  from assms obtain rest where "active_rental_rows self rid cid = (r, b) # rest"
    unfolding select_active_rental_def by (cases "active_rental_rows self rid cid") auto
  then have "(r, b) \<in> set (active_rental_rows self rid cid)" by simp
  then show ?thesis unfolding set_active_rental_rows by simp
qed

lemma select_active_rental_None:
  assumes "\<forall>r\<in>set (rentals self). r_id r = rid \<longrightarrow>
             r_customer_id r \<noteq> cid \<or> status r \<noteq> ''ACTIVE''"
  shows "select_active_rental self rid cid = None"
proof -
  have "set (active_rental_rows self rid cid) = {}"
    unfolding set_active_rental_rows using assms by auto
  then have "active_rental_rows self rid cid = []" by (simp only: set_empty)
  then show ?thesis unfolding select_active_rental_def by simp
qed

subsection \<open>The updates\<close>

lemma set_is_available_ids: "map b_id (set_is_available bs bid flag) = map b_id bs"
  by (induction bs) (simp_all add: set_is_available_def)

lemma set_is_available_cases:
  assumes "x \<in> set (set_is_available bs bid flag)"
  obtains b where "b \<in> set bs" "b_id b = bid" "x = b\<lparr>is_available := flag\<rparr>"
        | "x \<in> set bs" "b_id x \<noteq> bid"
proof -
  from assms obtain b where b: "b \<in> set bs"
      and x: "x = (if b_id b = bid then b\<lparr>is_available := flag\<rparr> else b)"
    unfolding set_is_available_def set_map by (rule imageE)
  show thesis
  proof (cases "b_id b = bid")
    case True
    with b x that(1) show thesis by simp
  next
    case False
    with b x that(2) show thesis by simp
  qed
qed

lemma set_is_available_flag:
  assumes "x \<in> set (set_is_available bs bid flag)" and "b_id x = bid"
  shows "is_available x = flag"
  using assms(1)
proof (cases rule: set_is_available_cases)
  case (1 b)
  then show ?thesis by simp
next
  case 2
  with assms(2) show ?thesis by simp
qed

lemma set_is_available_others:
  assumes "x \<in> set (set_is_available bs bid flag)" and "b_id x \<noteq> bid"
  shows "x \<in> set bs"
  using assms(1)
proof (cases rule: set_is_available_cases)
  case (1 b)
  with assms(2) show ?thesis by simp
next
  case 2
  then show ?thesis by simp
qed

lemma set_is_available_member:
  "b \<in> set bs \<Longrightarrow> b_id b = bid \<Longrightarrow> b\<lparr>is_available := flag\<rparr> \<in> set (set_is_available bs bid flag)"
  by (induction bs) (auto simp: set_is_available_def)

lemma select_after_flip:
  "select_available_bike (set_is_available bs bid False) bid = None"
  by (induction bs) (simp_all add: select_available_bike_def set_is_available_def)

lemma update_rental_cases:
  assumes "x \<in> set (update_rental rs rid e a c f)"
  obtains r where "r \<in> set rs" "r_id r = rid"
      "x = r\<lparr>rental_end := Some e, actual_duration_hours := Some a,
             additional_charges := c, total_cost := f, status := ''COMPLETED''\<rparr>"
        | "x \<in> set rs" "r_id x \<noteq> rid"
proof -
  from assms obtain r where r: "r \<in> set rs"
      and x: "x = (if r_id r = rid
                   then r\<lparr>rental_end := Some e, actual_duration_hours := Some a,
                          additional_charges := c, total_cost := f, status := ''COMPLETED''\<rparr>
                   else r)"
    unfolding update_rental_def set_map by (rule imageE)
  show thesis
  proof (cases "r_id r = rid")
    case True
    with r x that(1) show thesis by simp
  next
    case False
    with r x that(2) show thesis by simp
  qed
qed

lemma update_rental_member:
  "r \<in> set rs \<Longrightarrow> r_id r = rid \<Longrightarrow>
     r\<lparr>rental_end := Some e, actual_duration_hours := Some a,
       additional_charges := c, total_cost := f, status := ''COMPLETED''\<rparr>
       \<in> set (update_rental rs rid e a c f)"
  by (induction rs) (auto simp: update_rental_def)

lemma update_rental_ids: "map r_id (update_rental rs rid e a c f) = map r_id rs"
  by (induction rs) (simp_all add: update_rental_def)

subsection \<open>Failures and aggregates\<close>

lemma rent_bike_run:
  assumes "current_customer self = Some cust" and "0 < h" and "fits_int64 bid"
      and "select_available_bike (bikes self) bid = Some bike_data"
      and "calculate_rental_cost (create_bike (first_five bike_data)) h = Inr cost"
      and "fits_int64 h"
  shows "rent_bike self now bid h =
           (Inr (next_rowid (map r_id (rentals self)), cost),
            self\<lparr>bikes := set_is_available (bikes self) bid False,
                 rentals := insert_rental (rentals self) (customer_id cust) bid now h
                              cost cost\<rparr>)"
  using assms by (simp add: rent_bike_def Let_def)

lemma rent_bike_succeeds:
  assumes "fst (rent_bike self now bid h) = Inr v"
  shows "\<exists>cust bike_data. current_customer self = Some cust \<and> 0 < h \<and> fits_int64 bid
           \<and> fits_int64 h \<and> select_available_bike (bikes self) bid = Some bike_data"
proof (cases "current_customer self")
  case None
  with assms show ?thesis by (simp add: rent_bike_def)
next
  case (Some cust)
  note login = this
  have positive: "0 < h"
  proof (rule ccontr)
    assume "\<not> 0 < h"
    with assms login show False by (simp add: rent_bike_def)
  qed
  have bike_range: "fits_int64 bid"
  proof (rule ccontr)
    assume "\<not> fits_int64 bid"
    with assms login positive show False by (simp add: rent_bike_def)
  qed
  obtain bike_data where found: "select_available_bike (bikes self) bid = Some bike_data"
  proof (cases "select_available_bike (bikes self) bid")
    case None
    with assms login positive bike_range have False by (simp add: rent_bike_def)
    then show thesis ..
  next
    case (Some bike_data)
    then show thesis by (rule that)
  qed
  obtain cost where
    cost: "calculate_rental_cost (create_bike (first_five bike_data)) h = Inr cost"
    using cost_returns by blast
  have hours_range: "fits_int64 h"
  proof (rule ccontr)
    assume "\<not> fits_int64 h"
    with assms login positive bike_range found cost show False
      by (simp add: rent_bike_def Let_def)
  qed
  from login positive bike_range hours_range found show ?thesis by simp
qed

lemma rent_bike_failure_keeps:
  assumes "fst (rent_bike self now bid h) = Inl e"
  shows "snd (rent_bike self now bid h) = self"
proof (cases "\<exists>v. fst (rent_bike self now bid h) = Inr v")
  case True
  with assms show ?thesis by auto
next
  case False
  show ?thesis
  proof (cases "current_customer self")
    case None
    then show ?thesis by (simp add: rent_bike_def)
  next
    case (Some cust)
    note login = this
    show ?thesis
    proof (cases "select_available_bike (bikes self) bid")
      case None
      with login show ?thesis by (simp add: rent_bike_def)
    next
      case (Some bike_data)
      obtain cost where
        cost: "calculate_rental_cost (create_bike (first_five bike_data)) h = Inr cost"
        using cost_returns by blast
      show ?thesis
      proof (cases "0 < h \<and> fits_int64 bid \<and> fits_int64 h")
        case True
        with login Some cost have "\<exists>v. fst (rent_bike self now bid h) = Inr v"
          by (simp add: rent_bike_run)
        with False show ?thesis by simp
      next
        case False
        with login Some cost show ?thesis
          by (auto simp: rent_bike_def Let_def)
      qed
    qed
  qed
qed

lemma return_bike_run:
  assumes "current_customer self = Some cust" and "fits_int64 rid"
      and "select_active_rental self rid (customer_id cust) = Some (r, b)"
  shows "return_bike self now rid =
     (let actual = rat_of_int (now - rental_start r) / 1000000 / 3600;
          charges = (if actual > of_int (planned_duration_hours r)
                     then (actual - of_int (planned_duration_hours r))
                            * b_hourly_rate b * (3 / 2)
                     else 0)
      in (Inr (actual, charges, base_cost r + charges),
          self\<lparr>bikes := set_is_available (bikes self) (r_bike_id r) True,
               rentals := update_rental (rentals self) rid now actual charges
                            (base_cost r + charges)\<rparr>))"
proof -
  have rate: "hourly_rate (create_bike (r_bike_id r, b_bike_type b, b_model b,
                b_hourly_rate b, b_daily_rate b)) = b_hourly_rate b"
    by (rule create_bike_fields)
  from assms(2) have range: "(\<not> fits_int64 rid) = False"
    by simp
  show ?thesis
    unfolding return_bike_def assms(1) assms(3) range if_False option.case prod.case
      Let_def rate
    by (rule refl)
qed

lemma return_bike_succeeds:
  assumes "fst (return_bike self now rid) = Inr v"
  shows "\<exists>cust r b. current_customer self = Some cust \<and> fits_int64 rid
           \<and> select_active_rental self rid (customer_id cust) = Some (r, b)"
proof (cases "current_customer self")
  case None
  with assms show ?thesis by (simp add: return_bike_def)
next
  case (Some cust)
  note login = this
  show ?thesis
  proof (cases "fits_int64 rid")
    case False
    with assms login show ?thesis by (simp add: return_bike_def)
  next
    case True
    show ?thesis
    proof (cases "select_active_rental self rid (customer_id cust)")
      case None
      with assms login True show ?thesis by (simp add: return_bike_def)
    next
      case (Some row)
      obtain r b where "row = (r, b)" by (cases row)
      with Some login True show ?thesis by simp
    qed
  qed
qed

lemma return_bike_failure_keeps:
  assumes "fst (return_bike self now rid) = Inl e"
  shows "snd (return_bike self now rid) = self"
proof (cases "current_customer self")
  case None
  then show ?thesis by (simp add: return_bike_def)
next
  case (Some cust)
  note login = this
  show ?thesis
  proof (cases "fits_int64 rid")
    case False
    with login show ?thesis by (simp add: return_bike_def)
  next
    case True
    show ?thesis
    proof (cases "select_active_rental self rid (customer_id cust)")
      case None
      with login True show ?thesis by (simp add: return_bike_def)
    next
      case (Some row)
      obtain r b where row: "row = (r, b)" by (cases row)
      have "fst (return_bike self now rid) \<noteq> Inl e"
        unfolding return_bike_run [OF login True Some [unfolded row]] Let_def fst_conv
        by simp
      with assms show ?thesis by simp
    qed
  qed
qed

text \<open>
  The two ways in which \<^verbatim>\<open>rent_bike\<close> meets a value that the store cannot hold: a
  duration out of range fails in the \<^verbatim>\<open>except\<close> branch, after the bike was found; a
  bike id out of range raises before the \<^verbatim>\<open>try\<close> block.
\<close>

lemma rent_bike_duration_overflow:
  assumes "current_customer self = Some cust" and "0 < h" and "fits_int64 bid"
      and "select_available_bike (bikes self) bid = Some bike_data"
      and "\<not> fits_int64 h"
  shows "rent_bike self now bid h = (Inl ProcessingError, self)"
proof -
  obtain cost where "calculate_rental_cost (create_bike (first_five bike_data)) h = Inr cost"
    using cost_returns by blast
  with assms show ?thesis by (simp add: rent_bike_def Let_def)
qed

lemma rent_bike_id_overflow:
  assumes "current_customer self = Some cust" and "0 < h" and "\<not> fits_int64 bid"
  shows "rent_bike self now bid h = (Inl OverflowError, self)"
  using assms by (simp add: rent_bike_def)

text \<open>
  The ids of the rentals are a primary key. Both operations keep them distinct, so the
  tables that the program can reach satisfy the hypothesis of claim C2.
\<close>

lemma rent_bike_keeps_keys:
  assumes "distinct (map r_id (rentals self))"
  shows "distinct (map r_id (rentals (snd (rent_bike self now bid h))))"
proof (cases "fst (rent_bike self now bid h)")
  case (Inl e)
  then have "snd (rent_bike self now bid h) = self" by (rule rent_bike_failure_keeps)
  with assms show ?thesis by simp
next
  case (Inr v)
  then obtain cust bike_data where login: "current_customer self = Some cust"
      and positive: "0 < h" and range: "fits_int64 bid" "fits_int64 h"
      and found: "select_available_bike (bikes self) bid = Some bike_data"
    using rent_bike_succeeds by blast
  obtain cost where
    cost: "calculate_rental_cost (create_bike (first_five bike_data)) h = Inr cost"
    using cost_returns by blast
  have "map r_id (rentals (snd (rent_bike self now bid h)))
          = map r_id (rentals self) @ [next_rowid (map r_id (rentals self))]"
    by (simp add: rent_bike_run [OF login positive range(1) found cost range(2)]
        insert_rental_def)
  with assms next_rowid_fresh [of "map r_id (rentals self)"] show ?thesis by simp
qed

lemma return_bike_keeps_keys:
  assumes "distinct (map r_id (rentals self))"
  shows "distinct (map r_id (rentals (snd (return_bike self now rid))))"
proof (cases "fst (return_bike self now rid)")
  case (Inl e)
  then have "snd (return_bike self now rid) = self" by (rule return_bike_failure_keeps)
  with assms show ?thesis by simp
next
  case (Inr v)
  then obtain cust r b where login: "current_customer self = Some cust"
      and range: "fits_int64 rid"
      and found: "select_active_rental self rid (customer_id cust) = Some (r, b)"
    using return_bike_succeeds by blast
  have "map r_id (rentals (snd (return_bike self now rid))) = map r_id (rentals self)"
    by (simp add: return_bike_run [OF login range found] Let_def update_rental_ids)
  with assms show ?thesis by simp
qed

lemma or_zero_sum: "or_zero (sql_sum xs) = sum_list xs"
  by (simp add: or_zero_def sql_sum_def)

lemma or_zero_avg: "or_zero (sql_avg xs) = spec_mean xs"
  by (simp add: or_zero_def sql_avg_def spec_mean_def)

lemma durations_filter:
  "concat (map (\<lambda>r. case actual_duration_hours r of None \<Rightarrow> [] | Some d \<Rightarrow> [d]) rs)
     = [the (actual_duration_hours r). r \<leftarrow> rs, actual_duration_hours r \<noteq> None]"
  by (induction rs) (auto split: option.splits)

section \<open>The claims\<close>

text \<open>
  Claim C1. For every positive number of hours, the cost function of each class equals
  the piecewise formula: Mountain has the threshold 4 and the factor 0.8 on the remaining
  hours, Road the threshold 3 and no discount, Hybrid the threshold 6 and the factor 0.9,
  Electric the threshold 8, no discount, and the battery fee of 2 for each hour on top.
  So an electric bike costs eight hourly rates plus 16 for 8 hours, and a mountain bike
  at the rates 15 and 80 costs 152 for 30 hours.
\<close>

theorem cost_matches_spec:
  assumes "0 < hours"
  shows "calculate_rental_cost (MountainBike i t m hr dr) hours
           = Inr (spec_piecewise 4 (8 / 10) hr dr hours)
       \<and> calculate_rental_cost (RoadBike i t m hr dr) hours
           = Inr (spec_piecewise 3 1 hr dr hours)
       \<and> calculate_rental_cost (HybridBike i t m hr dr) hours
           = Inr (spec_piecewise 6 (9 / 10) hr dr hours)
       \<and> calculate_rental_cost (ElectricBike i t m hr dr) hours
           = Inr (spec_piecewise 8 1 hr dr hours + of_int hours * 2)
       \<and> calculate_rental_cost (ElectricBike i t m hr dr) 8 = Inr (8 * hr + 16)
       \<and> calculate_rental_cost (MountainBike i t m 15 80) 30 = Inr 152"
  by (simp add: spec_piecewise_def Let_def)

text \<open>The theorem at 30 hours, for the first mountain bike and the electric bike of the seed.\<close>

theorem cost_matches_spec_witness:
  "(0::int) < 30
   \<and> calculate_rental_cost (MountainBike 1 ''Mountain'' ''Trek X-Caliber'' 15 80) 30 = Inr 152
   \<and> spec_piecewise 4 (8 / 10) 15 80 30 = 152
   \<and> calculate_rental_cost (ElectricBike 4 ''Electric'' ''Rad Power RadCity'' 25 120) 30
        = Inr 330"
  using cost_matches_spec [of 30 1 "''Mountain''" "''Trek X-Caliber''" 15 80]
        cost_matches_spec [of 30 4 "''Electric''" "''Rad Power RadCity''" 25 120]
  by (simp add: spec_piecewise_def)

text \<open>
  Claim C2. When the logged-in customer returns a rental that the query finds active and
  owned, in a table whose ids are distinct (the primary key) and under an id that the
  store can hold (as every id of a stored row is): the actual duration is the
  time since the start in hours; the additional charges are the overtime times the hourly
  rate times 1.5 when the actual duration exceeds the planned one, and zero otherwise,
  where the total equals the base cost; the one row with the rental's id gets the end
  time, the actual duration, the additional charges, the total of base cost and
  additional charges and the status \<^verbatim>\<open>COMPLETED\<close>; the other rows stay; and the bike
  is available again.
\<close>

theorem return_bike_success:
  fixes self :: system and now :: timestamp
  defines "actual \<equiv> \<lambda>r. rat_of_int (now - rental_start r) / 1000000 / 3600"
  defines "overtime \<equiv> \<lambda>r b.
             (if actual r > of_int (planned_duration_hours r)
              then (actual r - of_int (planned_duration_hours r)) * b_hourly_rate b * (3 / 2)
              else 0)"
  assumes login: "current_customer self = Some cust"
      and found: "select_active_rental self rid (customer_id cust) = Some (r, b)"
      and keys: "distinct (map r_id (rentals self))"
      and range: "fits_int64 rid"
  shows "\<exists>closed.
           fst (return_bike self now rid)
             = Inr (actual r, overtime r b, base_cost r + overtime r b)
         \<and> closed \<in> set (rentals (snd (return_bike self now rid)))
         \<and> (\<forall>x \<in> set (rentals (snd (return_bike self now rid))).
               (r_id x = rid \<longrightarrow> x = closed) \<and> (r_id x \<noteq> rid \<longrightarrow> x \<in> set (rentals self)))
         \<and> map r_id (rentals (snd (return_bike self now rid))) = map r_id (rentals self)
         \<and> closed = r\<lparr>rental_end := Some now, actual_duration_hours := Some (actual r),
                        additional_charges := overtime r b,
                        total_cost := base_cost r + overtime r b,
                        status := ''COMPLETED''\<rparr>
         \<and> (actual r > of_int (planned_duration_hours r) \<longrightarrow>
               additional_charges closed
                 = (actual r - of_int (planned_duration_hours r)) * b_hourly_rate b * (3 / 2))
         \<and> (actual r \<le> of_int (planned_duration_hours r) \<longrightarrow>
               additional_charges closed = 0 \<and> total_cost closed = base_cost closed)
         \<and> total_cost closed = base_cost closed + additional_charges closed
         \<and> rental_end closed = Some now
         \<and> actual_duration_hours closed = Some (actual r)
         \<and> status closed = ''COMPLETED''
         \<and> b\<lparr>is_available := True\<rparr> \<in> set (bikes (snd (return_bike self now rid)))
         \<and> (\<forall>x \<in> set (bikes (snd (return_bike self now rid))).
               b_id x = r_bike_id r \<longrightarrow> is_available x)
         \<and> map b_id (bikes (snd (return_bike self now rid))) = map b_id (bikes self)
         \<and> customers (snd (return_bike self now rid)) = customers self
         \<and> current_customer (snd (return_bike self now rid)) = Some cust"
proof -
  define closed where
    "closed = r\<lparr>rental_end := Some now, actual_duration_hours := Some (actual r),
                 additional_charges := overtime r b,
                 total_cost := base_cost r + overtime r b,
                 status := ''COMPLETED''\<rparr>"
  let ?s = "snd (return_bike self now rid)"
  have sel: "r \<in> set (rentals self)" "b \<in> set (bikes self)" "r_bike_id r = b_id b"
    "r_id r = rid"
    using select_active_rental_Some [OF found] by simp_all
  have run: "return_bike self now rid =
      (Inr (actual r, overtime r b, base_cost r + overtime r b),
       self\<lparr>bikes := set_is_available (bikes self) (r_bike_id r) True,
            rentals := update_rental (rentals self) rid now (actual r) (overtime r b)
                         (base_cost r + overtime r b)\<rparr>)"
    unfolding return_bike_run [OF login range found] Let_def actual_def overtime_def
    by (rule refl)
  have res: "fst (return_bike self now rid)
               = Inr (actual r, overtime r b, base_cost r + overtime r b)"
    by (simp only: run fst_conv)
  have rs: "rentals ?s = update_rental (rentals self) rid now (actual r) (overtime r b)
                           (base_cost r + overtime r b)"
    by (simp add: run)
  have bs: "bikes ?s = set_is_available (bikes self) (r_bike_id r) True"
    by (simp add: run)
  have cs: "customers ?s = customers self"
    by (simp add: run)
  have cc: "current_customer ?s = Some cust"
    by (simp add: run login)
  have mem: "closed \<in> set (rentals ?s)"
    unfolding rs closed_def using sel(1) sel(4) by (rule update_rental_member)
  have only: "\<forall>x \<in> set (rentals ?s).
      (r_id x = rid \<longrightarrow> x = closed) \<and> (r_id x \<noteq> rid \<longrightarrow> x \<in> set (rentals self))"
  proof
    fix x
    assume "x \<in> set (rentals ?s)"
    then have "x \<in> set (update_rental (rentals self) rid now (actual r) (overtime r b)
                           (base_cost r + overtime r b))"
      by (simp only: rs)
    then show "(r_id x = rid \<longrightarrow> x = closed) \<and> (r_id x \<noteq> rid \<longrightarrow> x \<in> set (rentals self))"
    proof (cases rule: update_rental_cases)
      case (1 r')
      from keys sel(1) 1(1) have "r' = r"
        by (rule distinct_ids_unique) (simp add: 1(2) sel(4))
      with 1 show ?thesis by (simp add: closed_def)
    next
      case 2
      then show ?thesis by simp
    qed
  qed
  have ids: "map r_id (rentals ?s) = map r_id (rentals self)"
    by (simp only: rs update_rental_ids)
  have late: "actual r > of_int (planned_duration_hours r) \<longrightarrow>
      additional_charges closed
        = (actual r - of_int (planned_duration_hours r)) * b_hourly_rate b * (3 / 2)"
    by (simp add: closed_def overtime_def)
  have timely: "actual r \<le> of_int (planned_duration_hours r) \<longrightarrow>
      additional_charges closed = 0 \<and> total_cost closed = base_cost closed"
    by (simp add: closed_def overtime_def)
  have inv: "total_cost closed = base_cost closed + additional_charges closed"
    by (simp add: closed_def)
  have fields: "rental_end closed = Some now" "actual_duration_hours closed = Some (actual r)"
    "status closed = ''COMPLETED''"
    by (simp_all add: closed_def)
  have returned: "b\<lparr>is_available := True\<rparr> \<in> set (bikes ?s)"
    unfolding bs using sel(2) sel(3) [symmetric] by (rule set_is_available_member)
  have avail: "\<forall>x \<in> set (bikes ?s). b_id x = r_bike_id r \<longrightarrow> is_available x"
    unfolding bs using set_is_available_flag [of _ "bikes self" "r_bike_id r" True] by simp
  have bids: "map b_id (bikes ?s) = map b_id (bikes self)"
    by (simp only: bs set_is_available_ids)
  show ?thesis
    apply (rule exI [of _ closed])
    apply (intro conjI)
    subgoal by (fact res)
    subgoal by (fact mem)
    subgoal by (fact only)
    subgoal by (fact ids)
    subgoal by (fact closed_def)
    subgoal by (fact late)
    subgoal by (fact timely)
    subgoal by (fact inv)
    subgoal by (fact fields)
    subgoal by (fact fields)
    subgoal by (fact fields)
    subgoal by (fact returned)
    subgoal by (fact avail)
    subgoal by (fact bids)
    subgoal by (fact cs)
    subgoal by (fact cc)
    done
qed

text \<open>
  The theorem on the system where Ada holds bike 1 for two planned hours: returned after
  three hours the overtime of one hour costs 22.5 on top of 30; returned after one hour
  there is no charge.
\<close>

theorem return_bike_success_witness:
  "current_customer renting = Some ada
   \<and> select_active_rental renting 1 (customer_id ada)
        = Some (active_row, trek\<lparr>is_available := False\<rparr>)
   \<and> distinct (map r_id (rentals renting))
   \<and> fits_int64 1
   \<and> fst (return_bike renting (3 * hour) 1) = Inr (3, 45 / 2, 105 / 2)
   \<and> fst (return_bike renting hour 1) = Inr (1, 0, 30)"
proof -
  have login: "current_customer renting = Some ada"
    by (simp add: renting_def logged_in_def)
  have found: "select_active_rental renting 1 (customer_id ada)
        = Some (active_row, trek\<lparr>is_available := False\<rparr>)"
    by (simp add: select_active_rental_def active_rental_rows_def renting_def logged_in_def
        logged_out_def sample_bikes_def set_is_available_def active_row_def trek_def ada_def)
  have keys: "distinct (map r_id (rentals renting))"
    by (simp add: renting_def)
  have range: "fits_int64 1"
    by (simp add: fits_int64_def)
  have late: "fst (return_bike renting (3 * hour) 1) = Inr (3, 45 / 2, 105 / 2)"
    using return_bike_success [OF login found keys range, of "3 * hour"]
    apply (elim exE)
    apply (drule conjunct1)
    apply (simp add: active_row_def trek_def hour_def)
    done
  have timely: "fst (return_bike renting hour 1) = Inr (1, 0, 30)"
    using return_bike_success [OF login found keys range, of hour]
    apply (elim exE)
    apply (drule conjunct1)
    apply (simp add: active_row_def trek_def hour_def)
    done
  from login found keys range late timely show ?thesis by (intro conjI)
qed

text \<open>
  Claim C3. When the logged-in customer rents an available bike for a positive number of
  hours, with a bike id and a duration that the store can hold: the bike object is
  created from the row and keeps its label, the cost is what the specification gives
  that label at the rates of the row for the planned hours, one row is appended to the
  rentals with a fresh id, that cost as base cost and as total cost, no additional
  charges, the status \<^verbatim>\<open>ACTIVE\<close>, the start time \<open>now\<close> and no end, and the bike is no
  longer available while the other bikes stay as they are.
\<close>

theorem rent_bike_success:
  fixes self :: system and bike_data :: bike_row and duration_hours :: int
  defines "quote \<equiv> spec_cost (b_bike_type bike_data) (b_hourly_rate bike_data)
                       (b_daily_rate bike_data) duration_hours"
  assumes login: "current_customer self = Some cust"
      and positive: "0 < duration_hours"
      and found: "select_available_bike (bikes self) bid = Some bike_data"
      and bike_range: "fits_int64 bid"
      and hours_range: "fits_int64 duration_hours"
  shows "\<exists>new.
           calculate_rental_cost (create_bike (first_five bike_data)) duration_hours
             = Inr quote
         \<and> bike_type (create_bike (first_five bike_data)) = b_bike_type bike_data
         \<and> fst (rent_bike self now bid duration_hours) = Inr (r_id new, quote)
         \<and> rentals (snd (rent_bike self now bid duration_hours)) = rentals self @ [new]
         \<and> r_id new \<notin> set (map r_id (rentals self))
         \<and> r_customer_id new = customer_id cust
         \<and> r_bike_id new = bid
         \<and> planned_duration_hours new = duration_hours
         \<and> rental_start new = now
         \<and> rental_end new = None
         \<and> actual_duration_hours new = None
         \<and> base_cost new = quote
         \<and> total_cost new = quote
         \<and> additional_charges new = 0
         \<and> total_cost new = base_cost new + additional_charges new
         \<and> status new = ''ACTIVE''
         \<and> map b_id (bikes (snd (rent_bike self now bid duration_hours))) = map b_id (bikes self)
         \<and> bike_data\<lparr>is_available := False\<rparr>
               \<in> set (bikes (snd (rent_bike self now bid duration_hours)))
         \<and> select_available_bike (bikes (snd (rent_bike self now bid duration_hours))) bid = None
         \<and> (\<forall>x \<in> set (bikes (snd (rent_bike self now bid duration_hours))).
               b_id x \<noteq> bid \<longrightarrow> x \<in> set (bikes self))
         \<and> customers (snd (rent_bike self now bid duration_hours)) = customers self
         \<and> current_customer (snd (rent_bike self now bid duration_hours)) = Some cust"
proof -
  have cost: "calculate_rental_cost (create_bike (first_five bike_data)) duration_hours
                = Inr quote"
    unfolding first_five_def quote_def by (rule cost_of_created)
  define new where
    "new = \<lparr>r_id = next_rowid (map r_id (rentals self)),
            r_customer_id = customer_id cust, r_bike_id = bid, rental_start = now,
            rental_end = None, planned_duration_hours = duration_hours,
            actual_duration_hours = None, base_cost = quote, additional_charges = 0,
            total_cost = quote, status = ''ACTIVE''\<rparr>"
  have run: "rent_bike self now bid duration_hours =
      (Inr (r_id new, quote),
       self\<lparr>bikes := set_is_available (bikes self) bid False,
            rentals := rentals self @ [new]\<rparr>)"
    unfolding rent_bike_run [OF login positive bike_range found cost hours_range]
    by (simp add: insert_rental_def new_def)
  have row: "bike_data \<in> set (bikes self)" "b_id bike_data = bid"
    using select_available_bike_Some [OF found] by simp_all
  have label: "bike_type (create_bike (first_five bike_data)) = b_bike_type bike_data"
    by (simp add: first_five_def create_bike_fields)
  have fresh: "r_id new \<notin> set (map r_id (rentals self))"
    unfolding new_def using next_rowid_fresh [of "map r_id (rentals self)"] by simp
  have flipped: "bike_data\<lparr>is_available := False\<rparr> \<in> set (set_is_available (bikes self) bid False)"
    using row by (rule set_is_available_member)
  have gone: "select_available_bike (set_is_available (bikes self) bid False) bid = None"
    by (rule select_after_flip)
  have fields: "r_customer_id new = customer_id cust" "r_bike_id new = bid"
    "planned_duration_hours new = duration_hours" "rental_start new = now"
    "rental_end new = None" "actual_duration_hours new = None" "base_cost new = quote"
    "total_cost new = quote" "additional_charges new = 0" "status new = ''ACTIVE''"
    by (simp_all add: new_def)
  have inv: "total_cost new = base_cost new + additional_charges new"
    by (simp add: fields)
  let ?s = "snd (rent_bike self now bid duration_hours)"
  have res: "fst (rent_bike self now bid duration_hours) = Inr (r_id new, quote)"
    by (simp only: run fst_conv)
  have rs: "rentals ?s = rentals self @ [new]"
    by (simp add: run)
  have bs: "bikes ?s = set_is_available (bikes self) bid False"
    by (simp add: run)
  have cs: "customers ?s = customers self"
    by (simp add: run)
  have cc: "current_customer ?s = Some cust"
    by (simp add: run login)
  have ids: "map b_id (bikes ?s) = map b_id (bikes self)"
    by (simp only: bs set_is_available_ids)
  have flipped': "bike_data\<lparr>is_available := False\<rparr> \<in> set (bikes ?s)"
    by (simp only: bs flipped)
  have gone': "select_available_bike (bikes ?s) bid = None"
    by (simp only: bs gone)
  have others: "\<forall>x \<in> set (bikes ?s). b_id x \<noteq> bid \<longrightarrow> x \<in> set (bikes self)"
    unfolding bs using set_is_available_others by blast
  show ?thesis
    apply (rule exI [of _ new])
    apply (intro conjI)
    subgoal by (fact cost)
    subgoal by (fact label)
    subgoal by (fact res)
    subgoal by (fact rs)
    subgoal by (fact fresh)
    subgoal by (fact fields)
    subgoal by (fact fields)
    subgoal by (fact fields)
    subgoal by (fact fields)
    subgoal by (fact fields)
    subgoal by (fact fields)
    subgoal by (fact fields)
    subgoal by (fact fields)
    subgoal by (fact fields)
    subgoal by (fact inv)
    subgoal by (fact fields)
    subgoal by (fact ids)
    subgoal by (fact flipped')
    subgoal by (fact gone')
    subgoal by (fact others)
    subgoal by (fact cs)
    subgoal by (fact cc)
    done
qed

text \<open>
  The theorem on the seeded system: Ada rents bike 1, a mountain bike at the rates 15 and
  80, for two hours at the instant 0 and gets rental 1 at the cost of 30.
\<close>

theorem rent_bike_success_witness:
  "current_customer logged_in = Some ada
   \<and> (0::int) < 2
   \<and> select_available_bike (bikes logged_in) 1 = Some trek
   \<and> fits_int64 1
   \<and> fits_int64 2
   \<and> spec_cost (b_bike_type trek) (b_hourly_rate trek) (b_daily_rate trek) 2 = 30
   \<and> rent_bike logged_in 0 1 2 = (Inr (1, 30), renting)
   \<and> select_available_bike (bikes (snd (rent_bike logged_in 0 1 2))) 1 = None"
proof -
  have login: "current_customer logged_in = Some ada"
    by (simp add: logged_in_def)
  have positive: "(0::int) < 2"
    by simp
  have found: "select_available_bike (bikes logged_in) 1 = Some trek"
    by (simp add: logged_in_def logged_out_def sample_bikes_def select_available_bike_def
        trek_def)
  have range: "fits_int64 1" "fits_int64 2"
    by (simp_all add: fits_int64_def)
  have quote: "spec_cost (b_bike_type trek) (b_hourly_rate trek) (b_daily_rate trek) 2 = 30"
    by (simp add: spec_cost_def spec_piecewise_def trek_def)
  note success = rent_bike_success [OF login positive found range, of 0]
  have run: "rent_bike logged_in 0 1 2 = (Inr (1, 30), renting)"
    by (simp add: rent_bike_def logged_in_def logged_out_def renting_def sample_bikes_def
        select_available_bike_def create_bike_def first_five_def bike_classes_def
        insert_rental_def set_is_available_def next_rowid_def active_row_def trek_def ada_def
        fits_int64_def Let_def)
  have gone: "select_available_bike (bikes (snd (rent_bike logged_in 0 1 2))) 1 = None"
    using success by (elim exE conjE)
  from login positive found range quote run gone show ?thesis by (intro conjI)
qed

text \<open>
  Claim C4 says that Open on a missing bike fails with \<open>BikeUnavailableError\<close> and
  Close on a missing rental with \<open>RentalNotFoundError\<close>. For an id that the store
  cannot hold the code does neither: no rental and no bike has the id \<open>2\<^sup>6\<^sup>3\<close>, yet
  \<^verbatim>\<open>return_bike\<close> ends in its \<^verbatim>\<open>except\<close> branch and \<^verbatim>\<open>rent_bike\<close> raises
  \<^verbatim>\<open>OverflowError\<close>.
\<close>

theorem precondition_failures_counterexample:
  "current_customer logged_in = Some ada
   \<and> 9223372036854775808 \<notin> set (map r_id (rentals logged_in))
   \<and> return_bike logged_in 0 9223372036854775808 = (Inl ProcessingError, logged_in)
   \<and> return_bike logged_in 0 9223372036854775808 \<noteq> (Inl RentalNotFoundError, logged_in)
   \<and> 9223372036854775808 \<notin> set (map b_id (bikes logged_in))
   \<and> rent_bike logged_in 0 9223372036854775808 2 = (Inl OverflowError, logged_in)
   \<and> rent_bike logged_in 0 9223372036854775808 2 \<noteq> (Inl BikeUnavailableError, logged_in)"
  by (simp add: return_bike_def rent_bike_def fits_int64_def logged_in_def logged_out_def
      sample_bikes_def trek_def)

text \<open>
  Claim C4, as amended. With a customer logged in, a violated precondition is reported
  and nothing is written: a duration of zero or less gives \<open>InvalidDurationError\<close>; a
  positive duration on a bike that is missing or not available, under an id that the
  store can hold, gives \<open>BikeUnavailableError\<close>; the return of a rental that is
  missing, of another customer or not active, under an id that the store can hold, gives
  \<open>RentalNotFoundError\<close>; the return under an id that the store cannot hold gives the
  failure of the \<^verbatim>\<open>except\<close> branch. Whenever either operation fails, the system is as
  before.
\<close>

theorem precondition_failures:
  assumes login: "current_customer self = Some cust"
  shows "(duration_hours \<le> 0 \<longrightarrow>
            rent_bike self now bid duration_hours = (Inl InvalidDurationError, self))
       \<and> (0 < duration_hours \<and> fits_int64 bid
            \<and> (\<forall>b \<in> set (bikes self). b_id b = bid \<longrightarrow> \<not> is_available b) \<longrightarrow>
            rent_bike self now bid duration_hours = (Inl BikeUnavailableError, self))
       \<and> (fits_int64 rid
            \<and> (\<forall>r \<in> set (rentals self). r_id r = rid \<longrightarrow>
                  r_customer_id r \<noteq> customer_id cust \<or> status r \<noteq> ''ACTIVE'') \<longrightarrow>
            return_bike self now rid = (Inl RentalNotFoundError, self))
       \<and> (\<not> fits_int64 rid \<longrightarrow>
            return_bike self now rid = (Inl ProcessingError, self))
       \<and> (\<forall>e. fst (rent_bike self now bid duration_hours) = Inl e \<longrightarrow>
              snd (rent_bike self now bid duration_hours) = self)
       \<and> (\<forall>e. fst (return_bike self now rid) = Inl e \<longrightarrow>
              snd (return_bike self now rid) = self)"
proof (intro conjI impI allI)
  assume "duration_hours \<le> 0"
  with login show "rent_bike self now bid duration_hours = (Inl InvalidDurationError, self)"
    by (simp add: rent_bike_def)
next
  assume "0 < duration_hours \<and> fits_int64 bid
          \<and> (\<forall>b \<in> set (bikes self). b_id b = bid \<longrightarrow> \<not> is_available b)"
  then have "0 < duration_hours" and "fits_int64 bid"
    and "select_available_bike (bikes self) bid = None"
    by (simp_all add: select_available_bike_None)
  with login show "rent_bike self now bid duration_hours = (Inl BikeUnavailableError, self)"
    by (simp add: rent_bike_def)
next
  assume a: "fits_int64 rid
          \<and> (\<forall>r \<in> set (rentals self). r_id r = rid \<longrightarrow>
                r_customer_id r \<noteq> customer_id cust \<or> status r \<noteq> ''ACTIVE'')"
  then have "\<forall>r \<in> set (rentals self). r_id r = rid \<longrightarrow>
                r_customer_id r \<noteq> customer_id cust \<or> status r \<noteq> ''ACTIVE''"
    by (rule conjunct2)
  then have "select_active_rental self rid (customer_id cust) = None"
    by (rule select_active_rental_None)
  with login a show "return_bike self now rid = (Inl RentalNotFoundError, self)"
    by (simp add: return_bike_def)
next
  assume "\<not> fits_int64 rid"
  with login show "return_bike self now rid = (Inl ProcessingError, self)"
    by (simp add: return_bike_def)
next
  fix e
  assume "fst (rent_bike self now bid duration_hours) = Inl e"
  then show "snd (rent_bike self now bid duration_hours) = self"
    by (rule rent_bike_failure_keeps)
next
  fix e
  assume "fst (return_bike self now rid) = Inl e"
  then show "snd (return_bike self now rid) = self"
    by (rule return_bike_failure_keeps)
qed

text \<open>
  The theorem on the seeded system and on the system where bike 1 is rented: zero hours,
  the bike 7 that does not exist, the bike 1 that is taken, rentals that do not exist,
  and a rental id that the store cannot hold.
\<close>

theorem precondition_failures_witness:
  "current_customer logged_in = Some ada
   \<and> rent_bike logged_in 0 1 0 = (Inl InvalidDurationError, logged_in)
   \<and> rent_bike logged_in 0 7 2 = (Inl BikeUnavailableError, logged_in)
   \<and> return_bike logged_in 0 1 = (Inl RentalNotFoundError, logged_in)
   \<and> current_customer renting = Some ada
   \<and> rent_bike renting hour 1 2 = (Inl BikeUnavailableError, renting)
   \<and> return_bike renting hour 2 = (Inl RentalNotFoundError, renting)
   \<and> return_bike renting hour 9223372036854775808 = (Inl ProcessingError, renting)"
proof -
  have login: "current_customer logged_in = Some ada"
    by (simp add: logged_in_def)
  have login': "current_customer renting = Some ada"
    by (simp add: renting_def logged_in_def)
  have range: "fits_int64 1" "fits_int64 2" "fits_int64 7"
    "\<not> fits_int64 9223372036854775808"
    by (simp_all add: fits_int64_def)
  have missing: "\<forall>b \<in> set (bikes logged_in). b_id b = 7 \<longrightarrow> \<not> is_available b"
    by (simp add: logged_in_def logged_out_def sample_bikes_def trek_def)
  have taken: "\<forall>b \<in> set (bikes renting). b_id b = 1 \<longrightarrow> \<not> is_available b"
    by (simp add: renting_def sample_bikes_def trek_def set_is_available_def)
  have none: "\<forall>r \<in> set (rentals logged_in). r_id r = 1 \<longrightarrow>
      r_customer_id r \<noteq> customer_id ada \<or> status r \<noteq> ''ACTIVE''"
    by (simp add: logged_in_def logged_out_def)
  have other: "\<forall>r \<in> set (rentals renting). r_id r = 2 \<longrightarrow>
      r_customer_id r \<noteq> customer_id ada \<or> status r \<noteq> ''ACTIVE''"
    by (simp add: renting_def active_row_def)
  have a: "rent_bike logged_in 0 1 0 = (Inl InvalidDurationError, logged_in)"
    using precondition_failures [OF login, of 0 0 1] by simp
  have b: "rent_bike logged_in 0 7 2 = (Inl BikeUnavailableError, logged_in)"
    using precondition_failures [OF login, of 2 0 7] missing range(3) by simp
  have c: "return_bike logged_in 0 1 = (Inl RentalNotFoundError, logged_in)"
    using precondition_failures [OF login, of _ 0 _ 1] none range(1) by simp
  have d: "rent_bike renting hour 1 2 = (Inl BikeUnavailableError, renting)"
    using precondition_failures [OF login', of 2 hour 1] taken range(1) by simp
  have e: "return_bike renting hour 2 = (Inl RentalNotFoundError, renting)"
    using precondition_failures [OF login', of _ hour _ 2] other range(2) by simp
  have f: "return_bike renting hour 9223372036854775808 = (Inl ProcessingError, renting)"
    using precondition_failures [OF login', of _ hour _ 9223372036854775808] range(4)
    by simp
  from login a b c login' d e f show ?thesis by (intro conjI)
qed

text \<open>
  Claim C5 says that for zero or negative hours every cost function fails with
  \<open>InvalidDurationError\<close> instead of returning a value. The code has no such check in
  the cost functions: a mountain bike costs 0 for 0 hours, and an electric bike at the
  rates 25 and 120 costs -81 for -3 hours.
\<close>

theorem cost_nonpositive_counterexample:
  "calculate_rental_cost (MountainBike 1 ''Mountain'' ''Trek X-Caliber'' 15 80) 0 = Inr 0
   \<and> calculate_rental_cost (MountainBike 1 ''Mountain'' ''Trek X-Caliber'' 15 80) 0
        \<noteq> Inl InvalidDurationError
   \<and> calculate_rental_cost (ElectricBike 4 ''Electric'' ''Rad Power RadCity'' 25 120) (- 3)
        = Inr (- 81)"
  by simp

text \<open>
  Claim C5, as amended. For zero or negative hours no cost function fails: Mountain,
  Road and Hybrid return hours times the hourly rate, Electric returns that plus the
  battery fee of 2 for each hour.
\<close>

theorem cost_nonpositive_returns:
  assumes "hours \<le> 0"
  shows "calculate_rental_cost (MountainBike i t m hr dr) hours = Inr (of_int hours * hr)
       \<and> calculate_rental_cost (RoadBike i t m hr dr) hours = Inr (of_int hours * hr)
       \<and> calculate_rental_cost (HybridBike i t m hr dr) hours = Inr (of_int hours * hr)
       \<and> calculate_rental_cost (ElectricBike i t m hr dr) hours
           = Inr (of_int hours * hr + of_int hours * 2)
       \<and> (\<forall>b. calculate_rental_cost b hours \<noteq> Inl InvalidDurationError)"
proof -
  have "calculate_rental_cost b hours \<noteq> Inl InvalidDurationError" for b
    by (cases b) (simp_all add: Let_def)
  with assms show ?thesis by simp
qed

theorem cost_nonpositive_returns_witness:
  "(- 3 :: int) \<le> 0
   \<and> calculate_rental_cost (RoadBike 2 ''Road'' ''Giant Defy'' 12 65) (- 3) = Inr (- 36)"
  using cost_nonpositive_returns [of "- 3" 2 "''Road''" "''Giant Defy''" 12 65]
  by simp

text \<open>
  Claim C6. \<^verbatim>\<open>create_bike\<close> maps the labels Mountain, Road, Hybrid and Electric to the
  four classes, one each; any other label gives a \<^verbatim>\<open>HybridBike\<close>, priced by the Hybrid
  formula, not a failure; and the object keeps the label it was given.
\<close>

theorem create_bike_resolves:
  "create_bike (i, ''Mountain'', m, hr, dr) = MountainBike i ''Mountain'' m hr dr
   \<and> create_bike (i, ''Road'', m, hr, dr) = RoadBike i ''Road'' m hr dr
   \<and> create_bike (i, ''Hybrid'', m, hr, dr) = HybridBike i ''Hybrid'' m hr dr
   \<and> create_bike (i, ''Electric'', m, hr, dr) = ElectricBike i ''Electric'' m hr dr
   \<and> (t \<notin> {''Mountain'', ''Road'', ''Hybrid'', ''Electric''} \<longrightarrow>
         create_bike (i, t, m, hr, dr) = HybridBike i t m hr dr
         \<and> calculate_rental_cost (create_bike (i, t, m, hr, dr)) hours
             = Inr (spec_piecewise 6 (9 / 10) hr dr hours))
   \<and> bike_type (create_bike (i, t, m, hr, dr)) = t"
  by (simp add: create_bike_def bike_classes_def spec_piecewise_def Let_def)

text \<open>
  The theorem for a label that is not in the dictionary, and for one that is.
\<close>

theorem create_bike_resolves_witness:
  "''Tandem'' \<notin> {''Mountain'', ''Road'', ''Hybrid'', ''Electric''}
   \<and> create_bike (7, ''Tandem'', ''Santana'', 20, 100) = HybridBike 7 ''Tandem'' ''Santana'' 20 100
   \<and> calculate_rental_cost (create_bike (7, ''Tandem'', ''Santana'', 20, 100)) 7 = Inr 126
   \<and> create_bike (1, ''Mountain'', ''Trek X-Caliber'', 15, 80)
        = MountainBike 1 ''Mountain'' ''Trek X-Caliber'' 15 80"
proof -
  have unknown: "''Tandem'' \<notin> {''Mountain'', ''Road'', ''Hybrid'', ''Electric''}"
    by simp
  from create_bike_resolves [of 7 "''Santana''" 20 100 "''Tandem''" 7] unknown
  have "create_bike (7, ''Tandem'', ''Santana'', 20, 100)
          = HybridBike 7 ''Tandem'' ''Santana'' 20 100"
    and "calculate_rental_cost (create_bike (7, ''Tandem'', ''Santana'', 20, 100)) 7
          = Inr (spec_piecewise 6 (9 / 10) 20 100 7)"
    by blast+
  moreover have "spec_piecewise 6 (9 / 10) 20 100 7 = 126"
    by (simp add: spec_piecewise_def)
  moreover from create_bike_resolves [of 1 "''Trek X-Caliber''" 15 80]
  have "create_bike (1, ''Mountain'', ''Trek X-Caliber'', 15, 80)
        = MountainBike 1 ''Mountain'' ''Trek X-Caliber'' 15 80"
    by blast
  ultimately show ?thesis using unknown by simp
qed

text \<open>
  Claim C7. The report leaves the system as it is. Its revenue is the sum of the total
  costs of the completed rentals, its counts are the number of rentals and of active
  rentals, its average duration is the mean of the actual durations that are not null.
  Over no rentals all four figures are zero and there is no popular bike type.
\<close>

theorem report_aggregates:
  "snd (generate_business_report self) = self
   \<and> total_revenue (fst (generate_business_report self))
       = sum_list [total_cost r. r \<leftarrow> rentals self, status r = ''COMPLETED'']
   \<and> total_rentals (fst (generate_business_report self)) = length (rentals self)
   \<and> active_rentals (fst (generate_business_report self))
       = length [r. r \<leftarrow> rentals self, status r = ''ACTIVE'']
   \<and> avg_duration (fst (generate_business_report self))
       = spec_mean [the (actual_duration_hours r).
                     r \<leftarrow> rentals self, actual_duration_hours r \<noteq> None]
   \<and> (rentals self = [] \<longrightarrow>
         fst (generate_business_report self)
           = \<lparr>total_revenue = 0, total_rentals = 0, active_rentals = 0,
              popular_bike = None, avg_duration = 0\<rparr>)"
proof -
  have empty: "rentals self = [] \<longrightarrow>
         fst (generate_business_report self)
           = \<lparr>total_revenue = 0, total_rentals = 0, active_rentals = 0,
              popular_bike = None, avg_duration = 0\<rparr>"
    by (simp add: generate_business_report_def Let_def or_zero_def sql_sum_def sql_avg_def
        select_popular_bike_def rented_types_def)
  have rest: "snd (generate_business_report self) = self"
    "total_revenue (fst (generate_business_report self))
       = sum_list [total_cost r. r \<leftarrow> rentals self, status r = ''COMPLETED'']"
    "total_rentals (fst (generate_business_report self)) = length (rentals self)"
    "active_rentals (fst (generate_business_report self))
       = length [r. r \<leftarrow> rentals self, status r = ''ACTIVE'']"
    by (simp_all add: generate_business_report_def Let_def or_zero_sum)
  have avg: "avg_duration (fst (generate_business_report self))
       = spec_mean [the (actual_duration_hours r).
                     r \<leftarrow> rentals self, actual_duration_hours r \<noteq> None]"
    by (simp only: generate_business_report_def Let_def fst_conv report.simps or_zero_avg
        durations_filter)
  show ?thesis
    apply (intro conjI)
    subgoal by (fact rest)
    subgoal by (fact rest)
    subgoal by (fact rest)
    subgoal by (fact rest)
    subgoal by (fact avg)
    subgoal by (fact empty)
    done
qed

text \<open>
  The theorem on the seeded system, which has no rentals; and the report evaluated with
  one active rental and after its return with one hour of overtime.
\<close>

theorem report_aggregates_witness:
  "rentals logged_in = []
   \<and> generate_business_report logged_in
        = (\<lparr>total_revenue = 0, total_rentals = 0, active_rentals = 0,
            popular_bike = None, avg_duration = 0\<rparr>, logged_in)
   \<and> fst (generate_business_report renting)
        = \<lparr>total_revenue = 0, total_rentals = 1, active_rentals = 1,
            popular_bike = Some (''Mountain'', 1), avg_duration = 0\<rparr>
   \<and> fst (generate_business_report (snd (return_bike renting (3 * hour) 1)))
        = \<lparr>total_revenue = 105 / 2, total_rentals = 1, active_rentals = 0,
            popular_bike = Some (''Mountain'', 1), avg_duration = 3\<rparr>"
proof -
  have empty: "rentals logged_in = []"
    by (simp add: logged_in_def logged_out_def)
  have a: "generate_business_report logged_in
        = (\<lparr>total_revenue = 0, total_rentals = 0, active_rentals = 0,
            popular_bike = None, avg_duration = 0\<rparr>, logged_in)"
    using report_aggregates [of logged_in] empty by (simp add: prod_eq_iff)
  have b: "fst (generate_business_report renting)
        = \<lparr>total_revenue = 0, total_rentals = 1, active_rentals = 1,
            popular_bike = Some (''Mountain'', 1), avg_duration = 0\<rparr>"
    by (simp add: generate_business_report_def select_popular_bike_def rented_types_def
        renting_def logged_in_def logged_out_def sample_bikes_def set_is_available_def
        active_row_def trek_def or_zero_def sql_sum_def sql_avg_def Let_def)
  have found: "select_active_rental renting 1 (customer_id ada)
        = Some (active_row, trek\<lparr>is_available := False\<rparr>)"
    by (simp add: select_active_rental_def active_rental_rows_def renting_def logged_in_def
        logged_out_def sample_bikes_def set_is_available_def active_row_def trek_def ada_def)
  have login: "current_customer renting = Some ada"
    by (simp add: renting_def logged_in_def)
  have range: "fits_int64 1"
    by (simp add: fits_int64_def)
  have ret: "snd (return_bike renting (3 * hour) 1) =
      renting\<lparr>bikes := set_is_available (bikes renting) 1 True,
        rentals := [active_row\<lparr>rental_end := Some (3 * hour), actual_duration_hours := Some 3,
           additional_charges := 45 / 2, total_cost := 105 / 2, status := ''COMPLETED''\<rparr>]\<rparr>"
    unfolding return_bike_run [OF login range found] Let_def snd_conv
    by (simp add: hour_def update_rental_def renting_def active_row_def trek_def)
  have c: "fst (generate_business_report (snd (return_bike renting (3 * hour) 1)))
        = \<lparr>total_revenue = 105 / 2, total_rentals = 1, active_rentals = 0,
            popular_bike = Some (''Mountain'', 1), avg_duration = 3\<rparr>"
    unfolding ret
    by (simp add: generate_business_report_def select_popular_bike_def rented_types_def
        renting_def logged_in_def logged_out_def sample_bikes_def set_is_available_def
        active_row_def trek_def or_zero_def sql_sum_def sql_avg_def Let_def)
  from empty a b c show ?thesis by (intro conjI)
qed

text \<open>
  Claim C9. The cost is not monotone in the hours. At the rates 15 and 80 a mountain
  bike costs 276 for 23 hours and 80 for 24 hours; each of the four classes, at the
  rates of the seed, has two positive durations where the longer one costs less.
\<close>

theorem cost_not_monotone:
  "calculate_rental_cost (MountainBike i t m 15 80) 23 = Inr 276
   \<and> calculate_rental_cost (MountainBike i t m 15 80) 24 = Inr 80
   \<and> (\<exists>h1 h2 c1 c2. 0 < h1 \<and> h1 < h2
        \<and> calculate_rental_cost (MountainBike i t m 15 80) h1 = Inr c1
        \<and> calculate_rental_cost (MountainBike i t m 15 80) h2 = Inr c2
        \<and> c2 < c1)
   \<and> (\<exists>h1 h2 c1 c2. 0 < h1 \<and> h1 < h2
        \<and> calculate_rental_cost (RoadBike i t m 12 65) h1 = Inr c1
        \<and> calculate_rental_cost (RoadBike i t m 12 65) h2 = Inr c2
        \<and> c2 < c1)
   \<and> (\<exists>h1 h2 c1 c2. 0 < h1 \<and> h1 < h2
        \<and> calculate_rental_cost (HybridBike i t m 10 55) h1 = Inr c1
        \<and> calculate_rental_cost (HybridBike i t m 10 55) h2 = Inr c2
        \<and> c2 < c1)
   \<and> (\<exists>h1 h2 c1 c2. 0 < h1 \<and> h1 < h2
        \<and> calculate_rental_cost (ElectricBike i t m 25 120) h1 = Inr c1
        \<and> calculate_rental_cost (ElectricBike i t m 25 120) h2 = Inr c2
        \<and> c2 < c1)"
proof -
  have m23: "calculate_rental_cost (MountainBike i t m 15 80) 23 = Inr 276"
    by simp
  have m24: "calculate_rental_cost (MountainBike i t m 15 80) 24 = Inr 80"
    by simp
  have r23: "calculate_rental_cost (RoadBike i t m 12 65) 23 = Inr 276"
    by simp
  have r24: "calculate_rental_cost (RoadBike i t m 12 65) 24 = Inr 65"
    by simp
  have h23: "calculate_rental_cost (HybridBike i t m 10 55) 23 = Inr 207"
    by simp
  have h24: "calculate_rental_cost (HybridBike i t m 10 55) 24 = Inr 55"
    by simp
  have e23: "calculate_rental_cost (ElectricBike i t m 25 120) 23 = Inr 621"
    by simp
  have e24: "calculate_rental_cost (ElectricBike i t m 25 120) 24 = Inr 168"
    by simp
  have lt: "(0::int) < 23" "(23::int) < 24" "(80::rat) < 276" "(65::rat) < 276"
    "(55::rat) < 207" "(168::rat) < 621"
    by simp_all
  show ?thesis
    using m23 m24 r23 r24 h23 h24 e23 e24 lt by blast
qed

text \<open>
  Claim C10. With no customer logged in, \<^verbatim>\<open>rent_bike\<close> and \<^verbatim>\<open>return_bike\<close> fail at
  once, whatever the tables hold, and leave the system as it is.
\<close>

theorem login_required:
  assumes "current_customer self = None"
  shows "rent_bike self now bid duration_hours = (Inl LoginRequired, self)
       \<and> return_bike self now rid = (Inl LoginRequired, self)"
  using assms by (simp add: rent_bike_def return_bike_def)

text \<open>
  The theorem on the seeded system before any login.
\<close>

theorem login_required_witness:
  "current_customer logged_out = None
   \<and> rent_bike logged_out 0 1 2 = (Inl LoginRequired, logged_out)
   \<and> return_bike logged_out 0 1 = (Inl LoginRequired, logged_out)"
proof -
  have none: "current_customer logged_out = None"
    by (simp add: logged_out_def)
  from none login_required [OF none, of 0 1 2 1] show ?thesis by simp
qed

end
